theory Spec2Isabelle
  imports Main "HOL-Library.Sublist"
begin

section \<open>The packaging script of rmm (python/setup.py)\<close>

text \<open>
  The script is straight-line code run once at import: it reads the environment, probes
  the executable search path, checks a directory, assembles one \<open>Extension\<close> and hands
  it to the build backend. Everything it asks of its surroundings (the process
  environment, the file system, the host Python installation, Cython, setuptools,
  versioneer) is a field of the record \<open>host\<close>; every such call is logged, in program
  order, in a trace of \<open>call\<close>s; a \<open>raise\<close> ends the run with \<open>Inl\<close> of the exception.
\<close>

subsection \<open>Path functions of the standard library (posixpath)\<close>

text \<open>
  \<open>os.path.dirname\<close> and \<open>os.path.join\<close> are pure string functions. They are written
  out here as the POSIX flavour of the standard library computes them:
  \<^verbatim>\<open>
  def dirname(p):
      i = p.rfind('/') + 1
      head = p[:i]
      if head and head != '/' * len(head):
          head = head.rstrip('/')
      return head

  def join(a, b):
      if b.startswith('/'):            path = b
      elif not a or a.endswith('/'):   path = a + b
      else:                            path = a + '/' + b
      return path
  \<close>
\<close>

definition sep :: char where
  "sep = CHR ''/''"

definition rstrip_sep :: "string \<Rightarrow> string" where
  "rstrip_sep s = rev (dropWhile (\<lambda>c. c = sep) (rev s))"

definition os_path_dirname :: "string \<Rightarrow> string" where
  "os_path_dirname p =
     (let head = rev (dropWhile (\<lambda>c. c \<noteq> sep) (rev p))
      in if head \<noteq> [] \<and> head \<noteq> replicate (length head) sep
         then rstrip_sep head else head)"

definition os_path_join :: "string \<Rightarrow> string \<Rightarrow> string" where
  "os_path_join a b =
     (if b \<noteq> [] \<and> hd b = sep then b
      else if a = [] \<or> last a = sep then a @ b
      else a @ [sep] @ b)"

subsection \<open>Data of the script\<close>

text \<open>The keyword arguments of \<open>setuptools.extension.Extension\<close> as the script gives them.\<close>

record Extension =
  name :: string
  sources :: "string list"
  include_dirs :: "string list"
  library_dirs :: "string list"
  libraries :: "string list"
  language :: string
  extra_compile_args :: "string list"

text \<open>The keyword arguments of the call of \<open>setup\<close> (lines 51 to 75).\<close>

record setup_kwargs =
  dist_name :: string
  version :: string
  description :: string
  url :: string
  author :: string
  license :: string
  classifiers :: "string list"
  setup_requires :: "string list"
  ext_modules :: "Extension list"
  packages :: "string list"
  package_data :: "(string \<times> string list) list"
  cmdclass :: "(string \<times> string) list"
  install_requires_kw :: "string list"
  zip_safe :: bool

text \<open>
  Exceptions. The script itself raises \<open>OSError\<close> only; \<open>BackendError\<close> stands for
  whatever Cython or setuptools raise, which the script neither catches nor translates.
\<close>

datatype exception = OSError string | BackendError string

text \<open>Calls that leave the script, in the order they are made.\<close>

datatype call =
    Os_environ_get string
  | Shutil_which string
  | Os_path_isdir string
  | Sysconfig_get_path string
  | Get_python_lib
  | Cythonize "Extension list"
  | Find_packages "string list"
  | Versioneer_get_cmdclass
  | Setuptools_setup setup_kwargs

text \<open>
  What the surroundings answer. \<open>os_environ\<close> is the mapping \<open>os.environ\<close>;
  \<open>shutil_which\<close> answers \<open>None\<close> as Python's \<open>None\<close>.
\<close>

record host =
  os_environ :: "string \<Rightarrow> string option"
  shutil_which :: "string \<Rightarrow> string option"
  isdir :: "string \<Rightarrow> bool"
  sysconfig_get_path :: "string \<Rightarrow> string"
  get_python_lib :: string
  os_sys_prefix :: string
  cythonize :: "Extension list \<Rightarrow> exception + Extension list"
  find_packages :: "string list \<Rightarrow> string list"
  versioneer_get_cmdclass :: "(string \<times> string) list"
  setuptools_setup :: "setup_kwargs \<Rightarrow> exception + unit"

type_synonym 'a run = "call list \<times> (exception + 'a)"

definition and_then :: "'a run \<Rightarrow> ('a \<Rightarrow> 'b run) \<Rightarrow> 'b run" where
  "and_then m f =
     (case m of
        (t, Inl e) \<Rightarrow> (t, Inl e)
      | (t, Inr x) \<Rightarrow> (case f x of (t', r) \<Rightarrow> (t @ t', r)))"

subsection \<open>Lines 13 to 31: constants and the toolkit locator\<close>

definition install_requires :: "string list" where
  "install_requires = [''numba'', ''cython'']"

definition cython_files :: "string list" where
  "cython_files = [''rmm/_lib/**/*.pyx'']"

definition not_located_message :: string where
  "not_located_message =
     ''Could not locate CUDA. '' @
     ''Please set the environment variable '' @
     ''CUDA_HOME to the path to the CUDA installation '' @
     ''and try again.''"

definition invalid_message :: "string \<Rightarrow> string" where
  "invalid_message CUDA_HOME = ''Invalid CUDA_HOME: directory does not exist: '' @ CUDA_HOME"

text \<open>
  Lines 18 to 26, the body of \<open>if not CUDA_HOME\<close>: look for \<open>cuda-gdb\<close> on the search
  path and take the directory two levels above it.
\<close>

definition probe_search_path :: "host \<Rightarrow> string run" where
  "probe_search_path h =
     (case shutil_which h ''cuda-gdb'' of
        None \<Rightarrow> ([Shutil_which ''cuda-gdb''], Inl (OSError not_located_message))
      | Some path_to_cuda_gdb \<Rightarrow>
          ([Shutil_which ''cuda-gdb''],
           Inr (os_path_dirname (os_path_dirname path_to_cuda_gdb))))"

text \<open>
  Lines 16 to 26. \<open>os.environ.get("CUDA_HOME", False)\<close> is a string or \<open>False\<close>;
  \<open>not CUDA_HOME\<close> holds for \<open>False\<close> (here \<open>None\<close>) and for the empty string.
\<close>

definition resolve_CUDA_HOME :: "host \<Rightarrow> string run" where
  "resolve_CUDA_HOME h =
     (case os_environ h ''CUDA_HOME'' of
        None \<Rightarrow> and_then ([Os_environ_get ''CUDA_HOME''], Inr ()) (\<lambda>_. probe_search_path h)
      | Some CUDA_HOME \<Rightarrow>
          if CUDA_HOME = []
          then and_then ([Os_environ_get ''CUDA_HOME''], Inr ()) (\<lambda>_. probe_search_path h)
          else ([Os_environ_get ''CUDA_HOME''], Inr CUDA_HOME))"

text \<open>Lines 28 and 29.\<close>

definition check_CUDA_HOME :: "host \<Rightarrow> string \<Rightarrow> string run" where
  "check_CUDA_HOME h CUDA_HOME =
     (if \<not> isdir h CUDA_HOME
      then ([Os_path_isdir CUDA_HOME], Inl (OSError (invalid_message CUDA_HOME)))
      else ([Os_path_isdir CUDA_HOME], Inr CUDA_HOME))"

text \<open>Line 31.\<close>

definition cuda_include_dir :: "string \<Rightarrow> string" where
  "cuda_include_dir CUDA_HOME = os_path_join CUDA_HOME ''include''"

text \<open>
  Lines 16 to 31 together: the toolkit home and the include directory derived from it.
\<close>

definition ToolkitLocator :: "host \<Rightarrow> (string \<times> string) run" where
  "ToolkitLocator h =
     and_then (resolve_CUDA_HOME h) (\<lambda>CUDA_HOME.
     and_then (check_CUDA_HOME h CUDA_HOME) (\<lambda>CUDA_HOME.
       ([], Inr (CUDA_HOME, cuda_include_dir CUDA_HOME))))"

subsection \<open>Lines 33 to 49: the extension\<close>

definition extensions :: "host \<Rightarrow> string \<Rightarrow> Extension list" where
  "extensions h cuda_inc =
     [\<lparr> name = ''*'',
        sources = cython_files,
        include_dirs =
          [''../include/rmm'',
           ''../include'',
           ''../build/include'',
           os_path_dirname (sysconfig_get_path h ''include''),
           cuda_inc],
        library_dirs = [get_python_lib h, os_path_join (os_sys_prefix h) ''lib''],
        libraries = [''rmm''],
        language = ''c++'',
        extra_compile_args = [''-std=c++14''] \<rparr>]"

definition build_extensions :: "host \<Rightarrow> string \<Rightarrow> Extension list run" where
  "build_extensions h cuda_inc =
     ([Sysconfig_get_path ''include'', Get_python_lib], Inr (extensions h cuda_inc))"

subsection \<open>Lines 51 to 75: the call of setup\<close>

definition kwargs :: "Extension list \<Rightarrow> string list \<Rightarrow> (string \<times> string) list \<Rightarrow> setup_kwargs" where
  "kwargs exts pkgs cmds =
     \<lparr> dist_name = ''rmm'',
       version = ''0.14.0'',
       description = ''rmm - RAPIDS Memory Manager'',
       url = ''https://github.com/rapidsai/rmm'',
       author = ''NVIDIA Corporation'',
       license = ''Apache 2.0'',
       classifiers =
         [''Intended Audience :: Developers'',
          ''Topic :: Database'',
          ''Topic :: Scientific/Engineering'',
          ''License :: OSI Approved :: Apache Software License'',
          ''Programming Language :: Python'',
          ''Programming Language :: Python :: 3.6'',
          ''Programming Language :: Python :: 3.7''],
       setup_requires = [''cython''],
       ext_modules = exts,
       packages = pkgs,
       package_data = [(''rmm._lib'', [''*.pxd'']), (''rmm._lib.includes'', [''*.pxd''])],
       cmdclass = cmds,
       install_requires_kw = install_requires,
       zip_safe = False \<rparr>"

text \<open>
  The keyword arguments are evaluated in the order written: \<open>cythonize(extensions)\<close>,
  then \<open>find_packages\<close>, then \<open>versioneer.get_cmdclass()\<close>, then \<open>setup\<close> itself.
\<close>

definition call_setup :: "host \<Rightarrow> Extension list \<Rightarrow> unit run" where
  "call_setup h exts =
     and_then ([Cythonize exts], cythonize h exts) (\<lambda>mods.
     and_then ([Find_packages [''rmm'', ''rmm.*'']], Inr (find_packages h [''rmm'', ''rmm.*''])) (\<lambda>pkgs.
     and_then ([Versioneer_get_cmdclass], Inr (versioneer_get_cmdclass h)) (\<lambda>cmds.
       ([Setuptools_setup (kwargs mods pkgs cmds)],
        setuptools_setup h (kwargs mods pkgs cmds)))))"

definition script :: "host \<Rightarrow> unit run" where
  "script h =
     and_then (ToolkitLocator h) (\<lambda>(CUDA_HOME, cuda_inc).
     and_then (build_extensions h cuda_inc) (\<lambda>exts.
       call_setup h exts))"

text \<open>The calls that start compilation: cythonization and the backend's \<open>setup\<close>.\<close>

fun compiles :: "call \<Rightarrow> bool" where
  "compiles (Cythonize _) = True"
| "compiles (Setuptools_setup _) = True"
| "compiles _ = False"

fun probes :: "call \<Rightarrow> bool" where
  "probes (Shutil_which _) = True"
| "probes _ = False"

subsection \<open>Concrete hosts\<close>

text \<open>
  Surroundings on which the script is run below. \<open>host_override\<close> has the variable set
  to an existing directory and nothing on the search path.
\<close>

definition host_override :: host where
  "host_override =
     \<lparr> os_environ = (\<lambda>k. if k = ''CUDA_HOME'' then Some ''/usr/local/cuda'' else None),
       shutil_which = (\<lambda>_. None),
       isdir = (\<lambda>p. p = ''/usr/local/cuda''),
       sysconfig_get_path = (\<lambda>_. ''/usr/include/python3.7m''),
       get_python_lib = ''/usr/lib/python3.7/site-packages'',
       os_sys_prefix = ''/usr'',
       cythonize = Inr,
       find_packages = (\<lambda>_. [''rmm'', ''rmm._lib'']),
       versioneer_get_cmdclass = [],
       setuptools_setup = (\<lambda>_. Inr ()) \<rparr>"

text \<open>No variable; \<open>cuda-gdb\<close> is on the search path, inside the same toolkit.\<close>

definition host_probe :: host where
  "host_probe =
     host_override
       \<lparr> os_environ := (\<lambda>_. None),
         shutil_which :=
           (\<lambda>c. if c = ''cuda-gdb'' then Some ''/usr/local/cuda/bin/cuda-gdb'' else None) \<rparr>"

text \<open>No variable and no \<open>cuda-gdb\<close>.\<close>

definition host_bare :: host where
  "host_bare = host_override \<lparr> os_environ := (\<lambda>_. None) \<rparr>"

text \<open>The variable names a directory that does not exist.\<close>

definition host_dangling :: host where
  "host_dangling =
     host_override
       \<lparr> os_environ := (\<lambda>k. if k = ''CUDA_HOME'' then Some ''/no/such/dir'' else None) \<rparr>"

text \<open>The variable is set to the empty string; \<open>cuda-gdb\<close> is on the search path.\<close>

definition host_empty_override :: host where
  "host_empty_override =
     host_probe \<lparr> os_environ := (\<lambda>k. if k = ''CUDA_HOME'' then Some [] else None) \<rparr>"

text \<open>The variable names a directory that exists and has no \<open>include\<close> inside.\<close>

definition host_no_include :: host where
  "host_no_include =
     host_override
       \<lparr> os_environ := (\<lambda>k. if k = ''CUDA_HOME'' then Some ''/opt/cuda'' else None),
         isdir := (\<lambda>p. p = ''/opt/cuda'') \<rparr>"

text \<open>
  No variable; the search path has the relative entry \<open>bin\<close>, so that \<open>shutil.which\<close>
  answers the relative path \<open>bin/cuda-gdb\<close>.
\<close>

definition host_relative :: host where
  "host_relative =
     host_bare
       \<lparr> shutil_which := (\<lambda>c. if c = ''cuda-gdb'' then Some ''bin/cuda-gdb'' else None) \<rparr>"

section \<open>Properties\<close>

subsection \<open>Auxiliary facts\<close>

lemmas host_defs = host_override_def host_probe_def host_bare_def host_dangling_def
  host_empty_override_def host_no_include_def host_relative_def

lemmas path_defs = os_path_dirname_def os_path_join_def rstrip_sep_def sep_def
  cuda_include_dir_def

lemma and_then_Inr [simp]:
  "and_then (t, Inr x) f = (t @ fst (f x), snd (f x))"
  by (simp add: and_then_def split: prod.splits)

lemma and_then_Inl [simp]:
  "and_then (t, Inl e) f = (t, Inl e)"
  by (simp add: and_then_def)

text \<open>The locator is the resolution of lines 16 to 26 followed by the check of line 28.\<close>

lemma ToolkitLocator_unfold:
  "ToolkitLocator h =
     (case resolve_CUDA_HOME h of
        (t, Inl e) \<Rightarrow> (t, Inl e)
      | (t, Inr p) \<Rightarrow>
          if isdir h p then (t @ [Os_path_isdir p], Inr (p, cuda_include_dir p))
          else (t @ [Os_path_isdir p], Inl (OSError (invalid_message p))))"
  by (simp add: ToolkitLocator_def check_CUDA_HOME_def split: prod.splits sum.splits)

lemma resolve_trace:
  "fst (resolve_CUDA_HOME h) = [Os_environ_get ''CUDA_HOME''] \<or>
   fst (resolve_CUDA_HOME h) = [Os_environ_get ''CUDA_HOME'', Shutil_which ''cuda-gdb'']"
  by (simp add: resolve_CUDA_HOME_def probe_search_path_def split: option.splits)

lemma resolve_error:
  "snd (resolve_CUDA_HOME h) = Inl e \<Longrightarrow> e = OSError not_located_message"
  by (auto simp: resolve_CUDA_HOME_def probe_search_path_def split: option.splits if_splits)

lemma locator_never_compiles: "filter compiles (fst (ToolkitLocator h)) = []"
  using resolve_trace [of h]
  by (cases "resolve_CUDA_HOME h") (auto simp: ToolkitLocator_unfold split: sum.splits)

lemma not_located_message_names_variable: "sublist ''CUDA_HOME'' not_located_message"
proof -
  have eq: "not_located_message =
      ''Could not locate CUDA. Please set the environment variable '' @ ''CUDA_HOME'' @
      '' to the path to the CUDA installation and try again.''"
    by (simp add: not_located_message_def)
  show ?thesis
    unfolding eq by (rule sublist_appendI)
qed

lemma invalid_message_names_path: "sublist p (invalid_message p)"
  unfolding invalid_message_def by (rule sublist_append_leftI)

lemma messages_differ: "not_located_message \<noteq> invalid_message p"
  by (simp add: not_located_message_def invalid_message_def)






text \<open>
  Where the name is not in that form the result is another string: a trailing separator
  is dropped, and directly under the file system root the answer is \<open>/\<close>.
\<close>

lemma grandparent_examples:
  "os_path_dirname (os_path_dirname ''/opt/cuda//bin/cuda-gdb'') = ''/opt/cuda''"
  "os_path_dirname (os_path_dirname ''/bin/cuda-gdb'') = ''/''"
  "os_path_dirname (os_path_dirname ''bin/cuda-gdb'') = []"
  by (simp_all add: path_defs)

lemma join_include_longer: "os_path_join p ''include'' \<noteq> p"
  by (simp add: os_path_join_def sep_def)

text \<open>A run whose locator succeeds does go on to cythonize the extension.\<close>

lemma script_reaches_cythonize:
  "snd (ToolkitLocator h) = Inr (home, inc) \<Longrightarrow>
   Cythonize (extensions h inc) \<in> set (fst (script h))"
  by (cases "ToolkitLocator h")
     (simp add: script_def build_extensions_def call_setup_def and_then_def
        split: prod.splits sum.splits)

text \<open>
  The derived path can fail the check too: with a relative search-path entry the
  directory two levels up is the empty string.
\<close>

lemma invalid_derived_path_example:
  "ToolkitLocator host_relative =
     ([Os_environ_get ''CUDA_HOME'', Shutil_which ''cuda-gdb'', Os_path_isdir []],
      Inl (OSError ''Invalid CUDA_HOME: directory does not exist: ''))"
  by (simp add: host_defs ToolkitLocator_unfold resolve_CUDA_HOME_def probe_search_path_def
      path_defs invalid_message_def)

subsection \<open>The toolkit locator\<close>

text \<open>
  C1. When \<open>CUDA_HOME\<close> is set in the environment to a non-empty string that names an
  existing directory, the locator returns exactly that string as the toolkit home. The
  only calls it makes are the read of the environment and the directory check: the
  search path is not probed.
\<close>

theorem override_is_trusted:
  assumes "os_environ h ''CUDA_HOME'' = Some v" and "v \<noteq> []" and "isdir h v"
  shows "snd (ToolkitLocator h) = Inr (v, cuda_include_dir v)
       \<and> fst (ToolkitLocator h) = [Os_environ_get ''CUDA_HOME'', Os_path_isdir v]
       \<and> filter probes (fst (ToolkitLocator h)) = []"
  using assms
  by (simp add: ToolkitLocator_def resolve_CUDA_HOME_def check_CUDA_HOME_def)

theorem override_is_trusted_witness:
  "os_environ host_override ''CUDA_HOME'' = Some ''/usr/local/cuda''
   \<and> ''/usr/local/cuda'' \<noteq> []
   \<and> isdir host_override ''/usr/local/cuda''
   \<and> snd (ToolkitLocator host_override) = Inr (''/usr/local/cuda'', ''/usr/local/cuda/include'')
   \<and> fst (ToolkitLocator host_override) =
       [Os_environ_get ''CUDA_HOME'', Os_path_isdir ''/usr/local/cuda'']
   \<and> filter probes (fst (ToolkitLocator host_override)) = []"
  using override_is_trusted [of host_override "''/usr/local/cuda''"]
  by (simp add: host_defs path_defs)

text \<open>
  C2. When \<open>CUDA_HOME\<close> is absent from the environment and \<open>cuda-gdb\<close> is not on the
  search path, the locator ends with \<open>OSError\<close> after reading the environment and
  probing the search path; no toolkit path is produced, and the message contains the
  name \<open>CUDA_HOME\<close>.
\<close>

theorem not_located_raises:
  assumes "os_environ h ''CUDA_HOME'' = None" and "shutil_which h ''cuda-gdb'' = None"
  shows "ToolkitLocator h =
           ([Os_environ_get ''CUDA_HOME'', Shutil_which ''cuda-gdb''],
            Inl (OSError not_located_message))
       \<and> sublist ''CUDA_HOME'' not_located_message"
  using assms not_located_message_names_variable
  by (simp add: ToolkitLocator_def resolve_CUDA_HOME_def probe_search_path_def)

theorem not_located_raises_witness:
  "os_environ host_bare ''CUDA_HOME'' = None
   \<and> shutil_which host_bare ''cuda-gdb'' = None
   \<and> ToolkitLocator host_bare =
       ([Os_environ_get ''CUDA_HOME'', Shutil_which ''cuda-gdb''],
        Inl (OSError ''Could not locate CUDA. Please set the environment variable CUDA_HOME to the path to the CUDA installation and try again.''))
   \<and> sublist ''CUDA_HOME'' not_located_message"
  using not_located_raises [of host_bare]
  by (simp add: host_defs not_located_message_def)



text \<open>
  C4. Whatever path lines 16 to 26 resolve, from the override or from the location of
  \<open>cuda-gdb\<close>: if it does not exist as a directory, the locator ends with \<open>OSError\<close>,
  and the message is the fixed prefix followed by exactly that path.
\<close>

theorem invalid_path_raises:
  assumes "snd (resolve_CUDA_HOME h) = Inr p" and "\<not> isdir h p"
  shows "snd (ToolkitLocator h) = Inl (OSError (invalid_message p))
       \<and> invalid_message p = ''Invalid CUDA_HOME: directory does not exist: '' @ p
       \<and> sublist p (invalid_message p)"
  using assms invalid_message_names_path [of p]
  by (cases "resolve_CUDA_HOME h") (simp add: ToolkitLocator_unfold invalid_message_def)

theorem invalid_path_raises_witness:
  "snd (resolve_CUDA_HOME host_dangling) = Inr ''/no/such/dir''
   \<and> \<not> isdir host_dangling ''/no/such/dir''
   \<and> snd (ToolkitLocator host_dangling) =
       Inl (OSError ''Invalid CUDA_HOME: directory does not exist: /no/such/dir'')
   \<and> sublist ''/no/such/dir'' (invalid_message ''/no/such/dir'')"
  using invalid_path_raises [of host_dangling "''/no/such/dir''"]
  by (simp add: host_defs resolve_CUDA_HOME_def invalid_message_def)

text \<open>
  C5. When the locator fails, with either error, the whole script ends with that error
  and has made no call beyond the locator's own: in particular neither \<open>cythonize\<close> nor
  \<open>setup\<close> is ever called.
\<close>

theorem failure_precedes_compilation:
  assumes "snd (ToolkitLocator h) = Inl e"
  shows "script h = (fst (ToolkitLocator h), Inl e)
       \<and> filter compiles (fst (script h)) = []"
  using assms locator_never_compiles [of h]
  by (cases "ToolkitLocator h") (simp add: script_def)

theorem failure_precedes_compilation_witness:
  "snd (ToolkitLocator host_bare) = Inl (OSError not_located_message)
   \<and> script host_bare =
       ([Os_environ_get ''CUDA_HOME'', Shutil_which ''cuda-gdb''], Inl (OSError not_located_message))
   \<and> filter compiles (fst (script host_bare)) = []"
  using failure_precedes_compilation [of host_bare "OSError not_located_message"]
  by (simp add: host_defs ToolkitLocator_unfold resolve_CUDA_HOME_def probe_search_path_def)

text \<open>
  C6, as stated: every toolkit path the locator accepts contains an \<open>include\<close>
  subdirectory. On \<open>host_no_include\<close> the locator accepts \<open>/opt/cuda\<close> and hands out
  \<open>/opt/cuda/include\<close>, which is not a directory.
\<close>

theorem include_dir_unchecked_counterexample:
  "snd (ToolkitLocator host_no_include) = Inr (''/opt/cuda'', ''/opt/cuda/include'')
   \<and> \<not> isdir host_no_include ''/opt/cuda/include''"
  by (simp add: host_defs ToolkitLocator_unfold resolve_CUDA_HOME_def path_defs)

text \<open>
  C6, amended. Every toolkit path the locator accepts exists as a directory, and the
  locator's output is that path together with the path joined with \<open>include\<close>. The
  directory check is made on the toolkit path and never on the include path.
\<close>

theorem accepted_path_is_directory:
  assumes "snd (ToolkitLocator h) = Inr (home, inc)"
  shows "isdir h home
       \<and> inc = os_path_join home ''include''
       \<and> Os_path_isdir home \<in> set (fst (ToolkitLocator h))
       \<and> Os_path_isdir inc \<notin> set (fst (ToolkitLocator h))"
proof -
  obtain t r where res: "resolve_CUDA_HOME h = (t, r)"
    by (cases "resolve_CUDA_HOME h")
  with assms obtain p where p: "r = Inr p" "isdir h p" "home = p" "inc = cuda_include_dir p"
    by (cases r) (auto simp: ToolkitLocator_unfold split: if_splits)
  have t: "Os_path_isdir inc \<notin> set t"
    using resolve_trace [of h] res by auto
  have "inc \<noteq> home"
    using p join_include_longer [of p] by (simp add: cuda_include_dir_def)
  with res p t show ?thesis
    by (simp add: ToolkitLocator_unfold cuda_include_dir_def)
qed

theorem accepted_path_is_directory_witness:
  "snd (ToolkitLocator host_no_include) = Inr (''/opt/cuda'', ''/opt/cuda/include'')
   \<and> isdir host_no_include ''/opt/cuda''
   \<and> ''/opt/cuda/include'' = os_path_join ''/opt/cuda'' ''include''
   \<and> Os_path_isdir ''/opt/cuda'' \<in> set (fst (ToolkitLocator host_no_include))
   \<and> Os_path_isdir ''/opt/cuda/include'' \<notin> set (fst (ToolkitLocator host_no_include))"
  using accepted_path_is_directory [of host_no_include "''/opt/cuda''" "''/opt/cuda/include''"]
  by (simp add: host_defs ToolkitLocator_unfold resolve_CUDA_HOME_def path_defs)

subsection \<open>The extension\<close>

text \<open>
  C7. The extension list is a function of the locator's output and of the host Python
  installation only. Two runs, on hosts that may differ in everything else (the
  environment, the search path, the file system, the backend), that get the same
  locator output and the same installation paths, assemble the same list, with the same
  include directories, library directories, libraries and compiler flags.
\<close>

theorem extensions_depend_on_inputs_only:
  assumes "snd (ToolkitLocator h1) = Inr out" and "snd (ToolkitLocator h2) = Inr out"
    and "sysconfig_get_path h1 ''include'' = sysconfig_get_path h2 ''include''"
    and "get_python_lib h1 = get_python_lib h2"
    and "os_sys_prefix h1 = os_sys_prefix h2"
  shows "build_extensions h1 (snd out) = build_extensions h2 (snd out)
       \<and> map include_dirs (extensions h1 (snd out)) = map include_dirs (extensions h2 (snd out))
       \<and> map library_dirs (extensions h1 (snd out)) = map library_dirs (extensions h2 (snd out))
       \<and> map libraries (extensions h1 (snd out)) = map libraries (extensions h2 (snd out))
       \<and> map extra_compile_args (extensions h1 (snd out)) =
           map extra_compile_args (extensions h2 (snd out))"
  using assms(3-5) by (simp add: build_extensions_def extensions_def)

theorem extensions_depend_on_inputs_only_witness:
  "snd (ToolkitLocator host_override) = Inr (''/usr/local/cuda'', ''/usr/local/cuda/include'')
   \<and> snd (ToolkitLocator host_probe) = Inr (''/usr/local/cuda'', ''/usr/local/cuda/include'')
   \<and> fst (ToolkitLocator host_override) \<noteq> fst (ToolkitLocator host_probe)
   \<and> sysconfig_get_path host_override ''include'' = sysconfig_get_path host_probe ''include''
   \<and> get_python_lib host_override = get_python_lib host_probe
   \<and> os_sys_prefix host_override = os_sys_prefix host_probe
   \<and> build_extensions host_override ''/usr/local/cuda/include'' =
       build_extensions host_probe ''/usr/local/cuda/include''
   \<and> map include_dirs (extensions host_override ''/usr/local/cuda/include'') =
       map include_dirs (extensions host_probe ''/usr/local/cuda/include'')"
  using extensions_depend_on_inputs_only
    [of host_override "(''/usr/local/cuda'', ''/usr/local/cuda/include'')" host_probe]
  by (simp add: host_defs ToolkitLocator_unfold resolve_CUDA_HOME_def probe_search_path_def
      path_defs)

text \<open>
  C8. The include directories of the extension are, in this order, the three
  directories of the project, then the parent of the host Python's include directory,
  then the toolkit's include directory; the record also carries the source glob, the
  library directories, the library \<open>rmm\<close>, the language \<open>c++\<close> and the flag
  \<open>-std=c++14\<close>.
\<close>

theorem include_dirs_project_first:
  "map include_dirs (extensions h (cuda_include_dir home)) =
     [[''../include/rmm'', ''../include'', ''../build/include''] @
      [os_path_dirname (sysconfig_get_path h ''include''), os_path_join home ''include'']]
   \<and> map sources (extensions h (cuda_include_dir home)) = [[''rmm/_lib/**/*.pyx'']]
   \<and> map library_dirs (extensions h (cuda_include_dir home)) =
       [[get_python_lib h, os_path_join (os_sys_prefix h) ''lib'']]
   \<and> map libraries (extensions h (cuda_include_dir home)) = [[''rmm'']]
   \<and> map language (extensions h (cuda_include_dir home)) = [''c++'']
   \<and> map extra_compile_args (extensions h (cuda_include_dir home)) = [[''-std=c++14'']]"
  by (simp add: extensions_def cython_files_def cuda_include_dir_def)

subsection \<open>Falsy overrides and the type of the errors\<close>

text \<open>
  C9. An override that is set to the empty string is treated as an absent one: the
  locator does exactly what it does on the same host with the variable removed, calls
  and result alike, and it probes the search path for \<open>cuda-gdb\<close>. (The values
  \<open>os.environ.get\<close> can give are strings and the default \<open>False\<close>; the empty string
  is the only falsy string.)
\<close>

theorem empty_override_is_absent:
  assumes "os_environ h ''CUDA_HOME'' = Some []"
  shows "ToolkitLocator h = ToolkitLocator (h\<lparr>os_environ := (os_environ h)(''CUDA_HOME'' := None)\<rparr>)
       \<and> resolve_CUDA_HOME h =
           and_then ([Os_environ_get ''CUDA_HOME''], Inr ()) (\<lambda>_. probe_search_path h)
       \<and> filter probes (fst (ToolkitLocator h)) = [Shutil_which ''cuda-gdb'']"
proof -
  have r: "resolve_CUDA_HOME h =
      and_then ([Os_environ_get ''CUDA_HOME''], Inr ()) (\<lambda>_. probe_search_path h)"
    using assms by (simp add: resolve_CUDA_HOME_def)
  have "resolve_CUDA_HOME (h\<lparr>os_environ := (os_environ h)(''CUDA_HOME'' := None)\<rparr>) =
      resolve_CUDA_HOME h"
    using assms by (simp add: resolve_CUDA_HOME_def probe_search_path_def)
  then have "ToolkitLocator (h\<lparr>os_environ := (os_environ h)(''CUDA_HOME'' := None)\<rparr>) =
      ToolkitLocator h"
    by (simp add: ToolkitLocator_unfold split: prod.splits sum.splits)
  moreover have "filter probes (fst (ToolkitLocator h)) = [Shutil_which ''cuda-gdb'']"
    using assms
    by (simp add: ToolkitLocator_unfold resolve_CUDA_HOME_def probe_search_path_def
        split: option.splits)
  ultimately show ?thesis
    using r by simp
qed

theorem empty_override_is_absent_witness:
  "os_environ host_empty_override ''CUDA_HOME'' = Some []
   \<and> ToolkitLocator host_empty_override = ToolkitLocator host_probe
   \<and> snd (ToolkitLocator host_empty_override) =
       Inr (''/usr/local/cuda'', ''/usr/local/cuda/include'')
   \<and> filter probes (fst (ToolkitLocator host_empty_override)) = [Shutil_which ''cuda-gdb'']"
proof -
  have env: "os_environ host_empty_override ''CUDA_HOME'' = Some []"
    by (simp add: host_defs)
  note th = empty_override_is_absent [OF env]
  have heq: "host_empty_override
          \<lparr>os_environ := (os_environ host_empty_override)(''CUDA_HOME'' := None)\<rparr> = host_probe"
    by (simp add: host_defs fun_eq_iff)
  have res: "snd (ToolkitLocator host_probe) =
      Inr (''/usr/local/cuda'', ''/usr/local/cuda/include'')"
    by (simp add: host_defs ToolkitLocator_unfold resolve_CUDA_HOME_def probe_search_path_def
        path_defs)
  have a: "ToolkitLocator host_empty_override = ToolkitLocator host_probe"
    using th heq by simp
  have c: "filter probes (fst (ToolkitLocator host_empty_override)) = [Shutil_which ''cuda-gdb'']"
    using th by blast
  have b: "snd (ToolkitLocator host_empty_override) =
      Inr (''/usr/local/cuda'', ''/usr/local/cuda/include'')"
    using a res by simp
  from env a b c show ?thesis by blast
qed

text \<open>
  C10. Every failure of the locator is an \<open>OSError\<close>. It is the one of line 20 when
  nothing was resolved, and the one of line 29, about the resolved path, otherwise; the
  two have the same type and their messages always differ.
\<close>

theorem both_failures_are_OSError:
  assumes "snd (ToolkitLocator h) = Inl e"
  shows "(\<exists>m. e = OSError m)
       \<and> (snd (resolve_CUDA_HOME h) = Inl e \<and> e = OSError not_located_message
          \<or> (\<exists>p. snd (resolve_CUDA_HOME h) = Inr p \<and> e = OSError (invalid_message p)))
       \<and> (\<forall>p. not_located_message \<noteq> invalid_message p)"
proof -
  obtain t r where res: "resolve_CUDA_HOME h = (t, r)"
    by (cases "resolve_CUDA_HOME h")
  show ?thesis
  proof (cases r)
    case (Inl e')
    with res assms have "e' = e" by (simp add: ToolkitLocator_unfold)
    with res Inl resolve_error [of h e] messages_differ show ?thesis by simp
  next
    case (Inr p)
    with res assms have "e = OSError (invalid_message p)"
      by (simp add: ToolkitLocator_unfold split: if_splits)
    with res Inr messages_differ show ?thesis by simp
  qed
qed

theorem both_failures_are_OSError_witness:
  "snd (ToolkitLocator host_relative) =
     Inl (OSError ''Invalid CUDA_HOME: directory does not exist: '')
   \<and> snd (resolve_CUDA_HOME host_relative) = Inr []
   \<and> (\<exists>m. OSError ''Invalid CUDA_HOME: directory does not exist: '' = OSError m)
   \<and> (\<forall>p. not_located_message \<noteq> invalid_message p)"
proof -
  have l: "snd (ToolkitLocator host_relative) =
      Inl (OSError ''Invalid CUDA_HOME: directory does not exist: '')"
    by (simp add: host_defs ToolkitLocator_unfold resolve_CUDA_HOME_def probe_search_path_def
        path_defs invalid_message_def)
  have r: "snd (resolve_CUDA_HOME host_relative) = Inr []"
    by (simp add: host_defs resolve_CUDA_HOME_def probe_search_path_def path_defs)
  from both_failures_are_OSError [OF l] l r show ?thesis by simp
qed

end
